theory Spec2Isabelle
  imports Complex_Main
begin

section \<open>Common data\<close>

text \<open>
  The strategy managers of \<^verbatim>\<open>src/orders/advanced\<close> talk to the exchange through
  \<^verbatim>\<open>BinanceFuturesClient\<close>. The exchange is outside the repository, so every answer it
  gives (an order dictionary, or a raised exception) is an explicit input of the model, and
  every request the code sends is recorded in a log that the functions return.

  Python floats are modelled as exact real numbers: the theorems below are statements about
  the arithmetic the code writes down, not about binary rounding. Status values are the
  strings of the source.
\<close>

datatype error =
  ValidationError      \<comment> \<open>pydantic rejects the request\<close>
  | ZeroDivisionError
  | ExchangeError nat  \<comment> \<open>\<^verbatim>\<open>BinanceAPIException\<close> and friends, with a code\<close>

text \<open>
  An order dictionary as the exchange returns it. \<^verbatim>\<open>dict.get\<close> on a missing key gives
  \<^verbatim>\<open>None\<close>; the numeric fields are read with \<^verbatim>\<open>float(d.get(key, 0))\<close>, so they are
  stored as the number that expression yields.
\<close>

record order =
  orderId :: "nat option"
  order_status :: "string option"
  avgPrice :: real
  executedQty :: real

text \<open>Truthiness of \<^verbatim>\<open>d and d.get('orderId')\<close>: a present, non-zero id.\<close>

definition has_order_id :: "order option \<Rightarrow> bool" where
  "has_order_id r = (case r of None \<Rightarrow> False
     | Some d \<Rightarrow> (case orderId d of None \<Rightarrow> False | Some i \<Rightarrow> i \<noteq> 0))"

section \<open>Request validation (client/validator.py)\<close>










section \<open>TWAP scheduler (orders/advanced/twap.py)\<close>

record execution =
  chunk_num :: nat
  exec_quantity :: real
  exec_price :: real
  exec_order_id :: "nat option"

record twap_order =
  twap_id :: nat
  twap_symbol :: string
  twap_side :: string
  total_quantity :: real
  remaining_quantity :: real
  chunk_size :: real
  duration_minutes :: int
  interval_minutes :: int
  price_limit :: "real option"
  num_chunks :: int
  executed_chunks :: nat
  twap_status :: string
  executions :: "execution list"
  total_filled :: real
  avg_price :: real

text \<open>What the exchange is asked to do by \<^verbatim>\<open>_execute_chunk\<close>, with the requested size.\<close>

datatype chunk_request = LimitChunk real real | MarketChunk real


text \<open>
  What happens around chunk number \<open>c\<close>: whether \<^verbatim>\<open>stop_scheduler\<close> is set when the
  iteration starts, what the exchange answers to the chunk's order, and whether
  \<^verbatim>\<open>cancel_twap_order\<close> is called for this strategy while the iteration runs or waits.
\<close>

record chunk_env =
  stop_scheduler_set :: bool
  chunk_response :: "error + order"
  cancel_requested :: bool

record twap_run =
  tw :: twap_order
  requests :: "chunk_request list"

text \<open>\<^verbatim>\<open>_execute_chunk\<close>: a limit order when \<^verbatim>\<open>price_limit\<close> is truthy, else a market
  order; any exception gives \<^verbatim>\<open>None\<close>.\<close>

definition chunk_request_of :: "real option \<Rightarrow> real \<Rightarrow> chunk_request" where
  "chunk_request_of pl q = (case pl of
      None \<Rightarrow> MarketChunk q
    | Some p \<Rightarrow> (if p \<noteq> 0 then LimitChunk q p else MarketChunk q))"

definition execute_chunk :: "error + order \<Rightarrow> order option" where
  "execute_chunk resp = (case resp of Inl e \<Rightarrow> None | Inr d \<Rightarrow> Some d)"

text \<open>\<^verbatim>\<open>_update_average_price\<close>: one pass over the executions, then the guarded division.\<close>

definition update_average_price :: "twap_order \<Rightarrow> twap_order" where
  "update_average_price t =
     (let (total_value, total_qty) =
            fold (\<lambda>e (v, q). (v + exec_quantity e * exec_price e, q + exec_quantity e))
              (executions t) (0, 0)
      in if total_qty > 0 then t\<lparr>avg_price := total_value / total_qty\<rparr> else t)"

text \<open>The update of the strategy after a chunk whose result is truthy and FILLED.\<close>

definition record_fill :: "nat \<Rightarrow> order \<Rightarrow> twap_order \<Rightarrow> twap_order" where
  "record_fill c d t =
     (let fill_price = avgPrice d; fill_qty = executedQty d;
          t1 = t\<lparr>executions := executions t @
                 [\<lparr>chunk_num = c + 1, exec_quantity = fill_qty, exec_price = fill_price,
                   exec_order_id = orderId d\<rparr>]\<rparr>;
          t2 = t1\<lparr>total_filled := total_filled t1 + fill_qty\<rparr>;
          t3 = t2\<lparr>remaining_quantity := remaining_quantity t2 - fill_qty\<rparr>;
          t4 = t3\<lparr>executed_chunks := executed_chunks t3 + 1\<rparr>
      in update_average_price t4)"

text \<open>\<^verbatim>\<open>cancel_twap_order\<close> on a strategy that is in \<^verbatim>\<open>active_twap_orders\<close>: the only
  effect is the status field.\<close>

definition mark_cancelled :: "twap_order \<Rightarrow> twap_order" where
  "mark_cancelled t = t\<lparr>twap_status := ''CANCELLED''\<rparr>"

definition actual_chunk_size :: "nat \<Rightarrow> twap_order \<Rightarrow> real" where
  "actual_chunk_size c t =
     (if int c = num_chunks t - 1 then remaining_quantity t
      else min (chunk_size t) (remaining_quantity t))"

text \<open>
  The loop \<^verbatim>\<open>for chunk_num in range(num_chunks)\<close> of \<^verbatim>\<open>_execute_twap_chunks\<close>: \<open>k\<close>
  iterations are left and \<open>c\<close> is the chunk number. Both \<^verbatim>\<open>break\<close>s return the state as
  it is. A cancel request that arrives during the iteration changes the status field and
  nothing else; the loop never reads that field.
\<close>

fun twap_loop :: "(nat \<Rightarrow> chunk_env) \<Rightarrow> nat \<Rightarrow> nat \<Rightarrow> twap_run \<Rightarrow> twap_run" where
  "twap_loop env 0 c r = r"
| "twap_loop env (Suc k) c r =
     (if stop_scheduler_set (env c) then r
      else let t = tw r; sz = actual_chunk_size c t in
        if sz \<le> 0 then r
        else let
          r1 = r\<lparr>requests := requests r @ [chunk_request_of (price_limit t) sz]\<rparr>;
          t1 = (case execute_chunk (chunk_response (env c)) of
                  None \<Rightarrow> t
                | Some d \<Rightarrow> if order_status d = Some ''FILLED'' then record_fill c d t else t);
          t2 = (if cancel_requested (env c) then mark_cancelled t1 else t1)
        in twap_loop env k (Suc c) (r1\<lparr>tw := t2\<rparr>))"

text \<open>\<^verbatim>\<open>_execute_twap_chunks\<close>: the loop, then the unconditional status assignment.\<close>

definition execute_twap_chunks :: "(nat \<Rightarrow> chunk_env) \<Rightarrow> twap_order \<Rightarrow> twap_run" where
  "execute_twap_chunks env t =
     (let r = twap_loop env (nat (num_chunks t)) 0 \<lparr>tw = t, requests = []\<rparr>
      in r\<lparr>tw := (tw r)\<lparr>twap_status := ''COMPLETED''\<rparr>\<rparr>)"

text \<open>The dictionary \<^verbatim>\<open>execute_twap_order\<close> builds once the request is accepted.\<close>

definition new_twap_order :: "nat \<Rightarrow> string \<Rightarrow> string \<Rightarrow> real \<Rightarrow> int \<Rightarrow> int \<Rightarrow> real option \<Rightarrow> twap_order" where
  "new_twap_order tid symb sd tq duration interval pl =
     (let n = duration div interval in
      \<lparr>twap_id = tid, twap_symbol = symb, twap_side = sd, total_quantity = tq,
       remaining_quantity = tq, chunk_size = tq / real_of_int n,
       duration_minutes = duration, interval_minutes = interval, price_limit = pl,
       num_chunks = n, executed_chunks = 0, twap_status = ''ACTIVE'', executions = [],
       total_filled = 0, avg_price = 0\<rparr>)"




subsection \<open>Concrete exchange behaviours used in the examples\<close>

definition filled_order :: "nat \<Rightarrow> real \<Rightarrow> real \<Rightarrow> order" where
  "filled_order i p q = \<lparr>orderId = Some i, order_status = Some ''FILLED'', avgPrice = p, executedQty = q\<rparr>"



definition env_cancel_after_first :: "nat \<Rightarrow> chunk_env" where
  "env_cancel_after_first i = \<lparr>stop_scheduler_set = False,
     chunk_response = Inr (filled_order (i + 1) 100 1), cancel_requested = (i = 0)\<rparr>"


section \<open>Grid trading (orders/advanced/grid.py)\<close>

subsection \<open>The ladder of price levels\<close>

text \<open>
  Python's \<^verbatim>\<open>round(x)\<close> rounds to the nearest integer and a tie to the even
  neighbour; \<^verbatim>\<open>round(x, 1)\<close> does the same at the first decimal place.
\<close>

definition py_round :: "real \<Rightarrow> int" where
  "py_round x =
     (let f = \<lfloor>x\<rfloor>; d = x - of_int f in
      if d < 1 / 2 then f else if 1 / 2 < d then f + 1 else if even f then f else f + 1)"

definition round1 :: "real \<Rightarrow> real" where
  "round1 x = of_int (py_round (x * 10)) / 10"

text \<open>
  One entry of the \<^verbatim>\<open>filters\<close> list of a symbol's exchange information. A field is
  \<open>None\<close> when the key is missing (or, for the tick size, when \<^verbatim>\<open>float\<close> cannot
  read it): the subscript then raises.
\<close>

record filter_info =
  filterType :: "string option"
  tickSize :: "real option"

text \<open>
  The loop over the filters inside the \<^verbatim>\<open>try\<close> block: \<open>None\<close> when an exception is
  raised, the default 0.1 when no price filter is found.
\<close>

fun find_tick_size :: "filter_info list \<Rightarrow> real option" where
  "find_tick_size [] = Some (1 / 10)"
| "find_tick_size (f # fs) =
     (case filterType f of
        None \<Rightarrow> None
      | Some ft \<Rightarrow> if ft = ''PRICE_FILTER'' then tickSize f else find_tick_size fs)"

text \<open>
  The tick size \<^verbatim>\<open>_calculate_grid_levels\<close> works with. \<open>get_symbol_info\<close> is the
  client's answer for each symbol, the value being the \<^verbatim>\<open>filters\<close> list (empty when the
  key is absent); the symbol asked for is the literal of the source.
\<close>

definition lookup_tick_size :: "(string \<Rightarrow> error + filter_info list) \<Rightarrow> real" where
  "lookup_tick_size get_symbol_info =
     (case get_symbol_info ''BTCUSDT'' of
        Inl e \<Rightarrow> 1 / 10
      | Inr fs \<Rightarrow> (case find_tick_size fs of None \<Rightarrow> 1 / 10 | Some t \<Rightarrow> t))"

record grid_level =
  level :: nat
  level_price :: real
  order_type :: string
  side_color :: string
  level_status :: string

text \<open>The body of the loop \<^verbatim>\<open>for i in range(grid_count)\<close>.\<close>

definition grid_level_at :: "real \<Rightarrow> real \<Rightarrow> real \<Rightarrow> real \<Rightarrow> nat \<Rightarrow> grid_level" where
  "grid_level_at lower_price grid_gap tick_size current_price i =
     (let raw_price = lower_price + real i * grid_gap;
          price0 = of_int (py_round (raw_price / tick_size)) * tick_size;
          price = round1 price0
      in if price < current_price then
           \<lparr>level = i + 1, level_price = price, order_type = ''BUY'', side_color = ''green'',
            level_status = ''PENDING''\<rparr>
         else if price > current_price then
           \<lparr>level = i + 1, level_price = price, order_type = ''SELL'', side_color = ''red'',
            level_status = ''PENDING''\<rparr>
         else
           \<lparr>level = i + 1, level_price = price, order_type = ''MARKET'', side_color = ''yellow'',
            level_status = ''PENDING''\<rparr>)"

text \<open>
  \<^verbatim>\<open>_calculate_grid_levels\<close>. The two divisions raise \<^verbatim>\<open>ZeroDivisionError\<close>: the gap's
  when \<^verbatim>\<open>grid_count\<close> is 1, the tick's in the first iteration when the tick is 0.
\<close>

definition calculate_grid_levels ::
  "(string \<Rightarrow> error + filter_info list) \<Rightarrow> real \<Rightarrow> real \<Rightarrow> int \<Rightarrow> real \<Rightarrow> error + grid_level list" where
  "calculate_grid_levels get_symbol_info lower_price upper_price grid_count current_price =
     (if grid_count - 1 = 0 then Inl ZeroDivisionError
      else let price_range = upper_price - lower_price;
               grid_gap = price_range / real_of_int (grid_count - 1);
               tick_size = lookup_tick_size get_symbol_info
           in if 0 < grid_count \<and> tick_size = 0 then Inl ZeroDivisionError
              else Inr (map (grid_level_at lower_price grid_gap tick_size current_price)
                          [0 ..< nat grid_count]))"

subsection \<open>Fills, counter orders and profit\<close>

record trade_record =
  trade_level :: nat
  trade_side :: string
  trade_quantity :: real
  trade_price :: real
  trade_order_id :: "nat option"

record grid_strategy =
  grid_symbol :: string
  quantity_per_grid :: real
  grid_levels :: "grid_level list"
  buy_orders :: "nat \<rightharpoonup> order"
  sell_orders :: "nat \<rightharpoonup> order"
  executed_trades :: "trade_record list"
  total_profit :: real
  grid_status :: string

text \<open>A call of \<^verbatim>\<open>client.place_limit_order(symbol, side, quantity, price)\<close>.\<close>

datatype limit_request = PlaceLimit string string real real

text \<open>
  \<^verbatim>\<open>_place_counter_order\<close>. \<open>resp\<close> is the exchange's answer to the order, if one is sent:
  an exception, a falsy result (\<open>None\<close>) or an order dictionary. Every exception is caught
  and logged, so the function always returns; the result is the strategy and the orders
  sent. The two order maps are only written, never read.
\<close>

definition place_counter_order ::
  "error + order option \<Rightarrow> grid_strategy \<Rightarrow> nat \<Rightarrow> string \<Rightarrow> grid_strategy \<times> limit_request list" where
  "place_counter_order resp g filled_level sd =
     (let n = length (grid_levels g); quantity = quantity_per_grid g in
      if sd = ''SELL'' \<and> filled_level < n then
        (let target_level = filled_level + 1 in
         if target_level \<le> n then
           (let price = level_price (grid_levels g ! (target_level - 1));
                req = PlaceLimit (grid_symbol g) ''SELL'' quantity price
            in case resp of
                 Inl e \<Rightarrow> (g, [req])
               | Inr None \<Rightarrow> (g, [req])
               | Inr (Some d) \<Rightarrow> (g\<lparr>sell_orders := (sell_orders g)(target_level \<mapsto> d)\<rparr>, [req]))
         else (g, []))
      else if sd = ''BUY'' \<and> filled_level > 1 then
        (let target_level = filled_level - 1 in
         if target_level \<ge> 1 then
           (if target_level - 1 < n then
              (let price = level_price (grid_levels g ! (target_level - 1));
                   req = PlaceLimit (grid_symbol g) ''BUY'' quantity price
               in case resp of
                    Inl e \<Rightarrow> (g, [req])
                  | Inr None \<Rightarrow> (g, [req])
                  | Inr (Some d) \<Rightarrow> (g\<lparr>buy_orders := (buy_orders g)(target_level \<mapsto> d)\<rparr>, [req]))
            else (g, []))
         else (g, []))
      else (g, []))"






subsection \<open>Concrete grids used in the examples\<close>

definition no_symbol_info :: "string \<Rightarrow> error + filter_info list" where
  "no_symbol_info s = Inl (ExchangeError 1)"

definition resting_order :: "nat \<Rightarrow> order" where
  "resting_order i = \<lparr>orderId = Some i, order_status = Some ''NEW'', avgPrice = 0, executedQty = 0\<rparr>"

text \<open>The grid of the specification's scenario C: 100, 105, 110 around a price of 105.\<close>

definition example_levels :: "grid_level list" where
  "example_levels =
     [\<lparr>level = 1, level_price = 100, order_type = ''BUY'', side_color = ''green'', level_status = ''PLACED''\<rparr>,
      \<lparr>level = 2, level_price = 105, order_type = ''MARKET'', side_color = ''yellow'', level_status = ''PENDING''\<rparr>,
      \<lparr>level = 3, level_price = 110, order_type = ''SELL'', side_color = ''red'', level_status = ''PLACED''\<rparr>]"

definition example_grid :: grid_strategy where
  "example_grid =
     \<lparr>grid_symbol = ''BTCUSDT'', quantity_per_grid = 1, grid_levels = example_levels,
      buy_orders = [1 \<mapsto> resting_order 11, 2 \<mapsto> resting_order 12],
      sell_orders = [3 \<mapsto> resting_order 13],
      executed_trades = [], total_profit = 0, grid_status = ''ACTIVE''\<rparr>"






text \<open>An exchange that knows a price filter for ETHUSDT only.\<close>

definition eth_only_info :: "string \<Rightarrow> error + filter_info list" where
  "eth_only_info s =
     (if s = ''ETHUSDT'' then Inr [\<lparr>filterType = Some ''PRICE_FILTER'', tickSize = Some (1 / 100)\<rparr>]
      else Inl (ExchangeError 1))"

section \<open>OCO orders (orders/advanced/oco.py)\<close>



record oco_result =
  oco_id :: nat
  oco_symbol :: string
  oco_side :: string
  oco_quantity :: real
  limit_order :: order
  stop_order :: order
  oco_status :: string

record oco_manager =
  monitoring_orders :: "nat \<rightharpoonup> oco_result"
  stop_monitoring :: bool

text \<open>The requests the OCO manager sends to the exchange.\<close>

datatype exchange_call =
  PlaceLimitOrder string string real real
  | PlaceStopLimitOrder string string real real real
  | CancelOrder string "nat option"


text \<open>
  One cancel inside \<^verbatim>\<open>try: ... except: pass\<close>: the request is sent and its outcome,
  acknowledgement or exception, changes nothing.
\<close>

definition cancel_quietly :: "error option \<Rightarrow> string \<Rightarrow> nat option \<Rightarrow> exchange_call list" where
  "cancel_quietly outcome symb i = (case outcome of None \<Rightarrow> [CancelOrder symb i] | Some e \<Rightarrow> [CancelOrder symb i])"





subsection \<open>The monitoring loop\<close>

text \<open>
  What the \<open>i\<close>-th iteration of the loop meets: whether \<^verbatim>\<open>stop_monitoring\<close> is set, the
  answers to the two status queries (the second is only sent when the first returns), and
  the outcome of a cancel request.
\<close>

record poll_env =
  stop_monitoring_set :: bool
  limit_query :: "error + order"
  stop_query :: "error + order"
  cancel_outcome :: "error option"

text \<open>The strategy while it is monitored, the cancel requests sent so far and the number
  of iterations run.\<close>

record oco_run =
  oco :: oco_result
  sent :: "exchange_call list"
  polls :: nat

datatype 'a step = Break 'a | Continue 'a

text \<open>\<^verbatim>\<open>_cancel_remaining_order\<close>: the exception of a failed cancel is logged.\<close>

definition cancel_remaining_order :: "error option \<Rightarrow> string \<Rightarrow> nat option \<Rightarrow> exchange_call list" where
  "cancel_remaining_order outcome symb i = cancel_quietly outcome symb i"

text \<open>
  The body of the \<^verbatim>\<open>while\<close> loop of \<^verbatim>\<open>_monitor_oco_order\<close>. An exception of a status
  query is logged and the loop goes on after a longer sleep.
\<close>

definition oco_poll :: "poll_env \<Rightarrow> oco_run \<Rightarrow> oco_run step" where
  "oco_poll e r =
     (let r1 = r\<lparr>polls := polls r + 1\<rparr>; symb = oco_symbol (oco r);
          limit_order_id = orderId (limit_order (oco r));
          stop_order_id = orderId (stop_order (oco r))
      in case limit_query e of
        Inl err \<Rightarrow> Continue r1
      | Inr limit_status \<Rightarrow>
          (case stop_query e of
             Inl err \<Rightarrow> Continue r1
           | Inr stop_status \<Rightarrow>
               if order_status limit_status = Some ''FILLED'' then
                 Break (r1\<lparr>sent := sent r1 @ cancel_remaining_order (cancel_outcome e) symb stop_order_id,
                           oco := (oco r1)\<lparr>oco_status := ''LIMIT_FILLED''\<rparr>\<rparr>)
               else if order_status stop_status = Some ''FILLED'' then
                 Break (r1\<lparr>sent := sent r1 @ cancel_remaining_order (cancel_outcome e) symb limit_order_id,
                           oco := (oco r1)\<lparr>oco_status := ''STOP_FILLED''\<rparr>\<rparr>)
               else if order_status limit_status = Some ''CANCELED'' \<and>
                       order_status stop_status = Some ''CANCELED'' then
                 Break (r1\<lparr>oco := (oco r1)\<lparr>oco_status := ''CANCELLED''\<rparr>\<rparr>)
               else Continue r1))"

text \<open>
  \<^verbatim>\<open>while not self.stop_monitoring.is_set()\<close>, with fuel: \<open>None\<close> means that the loop is
  still polling when the fuel is used up.
\<close>

fun monitor_loop :: "(nat \<Rightarrow> poll_env) \<Rightarrow> nat \<Rightarrow> nat \<Rightarrow> oco_run \<Rightarrow> oco_run option" where
  "monitor_loop env 0 i r = None"
| "monitor_loop env (Suc fuel) i r =
     (if stop_monitoring_set (env i) then Some r
      else case oco_poll (env i) r of
             Break r' \<Rightarrow> Some r'
           | Continue r' \<Rightarrow> monitor_loop env fuel (Suc i) r')"

text \<open>\<^verbatim>\<open>_monitor_oco_order\<close>: the loop, then the strategy leaves the registry.\<close>

definition monitor_oco_order ::
  "(nat \<Rightarrow> poll_env) \<Rightarrow> nat \<Rightarrow> oco_manager \<Rightarrow> oco_result \<Rightarrow> (oco_run \<times> oco_manager) option" where
  "monitor_oco_order env fuel m oco_res =
     (case monitor_loop env fuel 0 \<lparr>oco = oco_res, sent = [], polls = 0\<rparr> of
        None \<Rightarrow> None
      | Some r \<Rightarrow> Some (r, m\<lparr>monitoring_orders := (monitoring_orders m)(oco_id oco_res := None)\<rparr>))"

subsection \<open>Concrete OCO runs used in the examples\<close>

definition example_oco :: oco_result where
  "example_oco = \<lparr>oco_id = 1, oco_symbol = ''BTCUSDT'', oco_side = ''SELL'', oco_quantity = 1,
     limit_order = resting_order 31, stop_order = resting_order 32, oco_status = ''ACTIVE''\<rparr>"

text \<open>Two quiet polls (the second fails), then the stop leg is seen FILLED.\<close>

definition stop_fills_third :: "nat \<Rightarrow> poll_env" where
  "stop_fills_third i =
     \<lparr>stop_monitoring_set = False,
      limit_query = (if i = 1 then Inl (ExchangeError 7) else Inr (resting_order 31)),
      stop_query = (if i < 2 then Inr (resting_order 32)
                    else Inr \<lparr>orderId = Some 32, order_status = Some ''FILLED'', avgPrice = 44000, executedQty = 1\<rparr>),
      cancel_outcome = None\<rparr>"

text \<open>Both legs fill between two polls; the cancel of the stop leg is refused.\<close>

definition both_fill_at_once :: "nat \<Rightarrow> poll_env" where
  "both_fill_at_once i =
     \<lparr>stop_monitoring_set = False,
      limit_query = Inr \<lparr>orderId = Some 31, order_status = Some ''FILLED'', avgPrice = 46000, executedQty = 1\<rparr>,
      stop_query = Inr \<lparr>orderId = Some 32, order_status = Some ''FILLED'', avgPrice = 44000, executedQty = 1\<rparr>,
      cancel_outcome = Some (ExchangeError 2011)\<rparr>"



section \<open>Properties of the TWAP scheduler\<close>



lemma fold_totals:
  "fold (\<lambda>e (v, q). (v + exec_quantity e * exec_price e, q + exec_quantity e)) xs (v0, q0)
     = (v0 + sum_list (map (\<lambda>e. exec_quantity e * exec_price e) xs),
        q0 + sum_list (map exec_quantity xs))"
  by (induction xs arbitrary: v0 q0) (simp_all add: algebra_simps)

lemma update_average_price_fields [simp]:
  "executions (update_average_price t) = executions t"
  "total_filled (update_average_price t) = total_filled t"
  "remaining_quantity (update_average_price t) = remaining_quantity t"
  "num_chunks (update_average_price t) = num_chunks t"
  "chunk_size (update_average_price t) = chunk_size t"
  "price_limit (update_average_price t) = price_limit t"
  by (simp_all add: update_average_price_def fold_totals)


lemma record_fill_fields [simp]:
  "executions (record_fill c d t) = executions t @
     [\<lparr>chunk_num = c + 1, exec_quantity = executedQty d, exec_price = avgPrice d, exec_order_id = orderId d\<rparr>]"
  "total_filled (record_fill c d t) = total_filled t + executedQty d"
  "remaining_quantity (record_fill c d t) = remaining_quantity t - executedQty d"
  "num_chunks (record_fill c d t) = num_chunks t"
  "chunk_size (record_fill c d t) = chunk_size t"
  "price_limit (record_fill c d t) = price_limit t"
  by (simp_all add: record_fill_def Let_def)

lemma mark_cancelled_fields [simp]:
  "executions (mark_cancelled t) = executions t"
  "total_filled (mark_cancelled t) = total_filled t"
  "remaining_quantity (mark_cancelled t) = remaining_quantity t"
  "num_chunks (mark_cancelled t) = num_chunks t"
  "chunk_size (mark_cancelled t) = chunk_size t"
  "price_limit (mark_cancelled t) = price_limit t"
  "avg_price (mark_cancelled t) = avg_price t"
  by (simp_all add: mark_cancelled_def)




lemma new_twap_order_fields [simp]:
  "executions (new_twap_order tid symb sd tq duration interval pl) = []"
  "total_filled (new_twap_order tid symb sd tq duration interval pl) = 0"
  "remaining_quantity (new_twap_order tid symb sd tq duration interval pl) = tq"
  "num_chunks (new_twap_order tid symb sd tq duration interval pl) = duration div interval"
  "chunk_size (new_twap_order tid symb sd tq duration interval pl) = tq / real_of_int (duration div interval)"
  "price_limit (new_twap_order tid symb sd tq duration interval pl) = pl"
  by (simp_all add: new_twap_order_def Let_def)

subsection \<open>The fill totals and the average price\<close>




subsection \<open>Requested chunk sizes\<close>




subsection \<open>Cancelling a TWAP\<close>

text \<open>
  Claim C2, evaluated on the code. Three chunks, each FILLED; \<^verbatim>\<open>cancel_twap_order\<close> is
  called while the loop waits after the first chunk. The loop reads \<^verbatim>\<open>stop_scheduler\<close>
  only, which the cancel request never sets, so the two remaining chunks are still sent,
  and the final assignment overwrites the status CANCELLED with COMPLETED.
\<close>

theorem twap_cancel_ignored:
  "let r = execute_twap_chunks env_cancel_after_first (new_twap_order 0 ''BTCUSDT'' ''BUY'' 3 60 20 None) in
     twap_status (tw r) = ''COMPLETED'' \<and> length (requests r) = 3 \<and> executed_chunks (tw r) = 3"
  by (simp add: execute_twap_chunks_def new_twap_order_def env_cancel_after_first_def Let_def
      eval_nat_numeral actual_chunk_size_def execute_chunk_def chunk_request_of_def filled_order_def
      record_fill_def update_average_price_def mark_cancelled_def)


subsection \<open>Schedule validation\<close>




section \<open>Properties of the grid strategy\<close>

subsection \<open>Counter orders\<close>

text \<open>
  Claim C3, as amended. After a BUY fill at level \<open>L\<close> with \<open>1 \<le> L < gridCount\<close>,
  \<^verbatim>\<open>_place_counter_order\<close> sends exactly one SELL limit order at the price of level
  \<open>L + 1\<close> (the list entry of index \<open>L\<close>), whatever the order maps hold, and an order
  the exchange accepts replaces the entry of level \<open>L + 1\<close> in \<^verbatim>\<open>sell_orders\<close>.
  Symmetrically a SELL fill at level \<open>L\<close> with \<open>1 < L \<le> gridCount\<close> sends one BUY limit
  order at the price of level \<open>L - 1\<close>.
\<close>

theorem counter_order_unconditional:
  "(1 \<le> L \<and> L < length (grid_levels g) \<longrightarrow>
      snd (place_counter_order resp g L ''SELL'') =
        [PlaceLimit (grid_symbol g) ''SELL'' (quantity_per_grid g) (level_price (grid_levels g ! L))] \<and>
      (\<forall>d. resp = Inr (Some d) \<longrightarrow>
         sell_orders (fst (place_counter_order resp g L ''SELL'')) = (sell_orders g)(L + 1 \<mapsto> d))) \<and>
   (1 < L \<and> L \<le> length (grid_levels g) \<longrightarrow>
      snd (place_counter_order resp g L ''BUY'') =
        [PlaceLimit (grid_symbol g) ''BUY'' (quantity_per_grid g) (level_price (grid_levels g ! (L - 2)))] \<and>
      (\<forall>d. resp = Inr (Some d) \<longrightarrow>
         buy_orders (fst (place_counter_order resp g L ''BUY'')) = (buy_orders g)(L - 1 \<mapsto> d)))"
  by (auto simp: place_counter_order_def Let_def numeral_2_eq_2 split: sum.splits option.splits)

text \<open>
  A sell order rests at level 3 of the example grid; the BUY fill at level 2 still sends a
  second sell order at level 3 and overwrites the recorded one.
\<close>

theorem counter_order_duplicate_counterexample:
  "sell_orders example_grid 3 = Some (resting_order 13) \<and>
   place_counter_order (Inr (Some (resting_order 99))) example_grid 2 ''SELL'' =
     (example_grid\<lparr>sell_orders := [3 \<mapsto> resting_order 99]\<rparr>, [PlaceLimit ''BTCUSDT'' ''SELL'' 1 110])"
  by (simp add: place_counter_order_def example_grid_def example_levels_def Let_def)

theorem counter_order_unconditional_witness:
  "snd (place_counter_order (Inr (Some (resting_order 99))) example_grid 2 ''SELL'') =
        [PlaceLimit ''BTCUSDT'' ''SELL'' 1 110] \<and>
   sell_orders (fst (place_counter_order (Inr (Some (resting_order 99))) example_grid 2 ''SELL''))
     = (sell_orders example_grid)(3 \<mapsto> resting_order 99) \<and>
   snd (place_counter_order (Inr (Some (resting_order 98))) example_grid 2 ''BUY'') =
        [PlaceLimit ''BTCUSDT'' ''BUY'' 1 100] \<and>
   buy_orders (fst (place_counter_order (Inr (Some (resting_order 98))) example_grid 2 ''BUY''))
     = (buy_orders example_grid)(1 \<mapsto> resting_order 98)"
  using counter_order_unconditional [of 2 example_grid "Inr (Some (resting_order 99))"]
    counter_order_unconditional [of 2 example_grid "Inr (Some (resting_order 98))"]
  by (simp add: example_grid_def example_levels_def)

subsection \<open>Profit accounting\<close>











subsection \<open>The ladder\<close>






















lemma eth_only_ladder:
  "calculate_grid_levels eth_only_info 100 110 3 105 = calculate_grid_levels no_symbol_info 100 110 3 105"
  by (simp add: calculate_grid_levels_def lookup_tick_size_def no_symbol_info_def eth_only_info_def)


section \<open>Properties of the OCO manager\<close>


subsection \<open>A start whose second leg fails\<close>



subsection \<open>The first leg seen FILLED\<close>

lemma monitor_loop_first_break:
  assumes "k \<le> i" "i - k < fuel"
    and "\<And>j. k \<le> j \<Longrightarrow> j \<le> i \<Longrightarrow> \<not> stop_monitoring_set (env j)"
    and "\<And>j r. k \<le> j \<Longrightarrow> j < i \<Longrightarrow> oco_poll (env j) r = Continue (r\<lparr>polls := polls r + 1\<rparr>)"
    and "oco_poll (env i) (r\<lparr>polls := polls r + (i - k)\<rparr>) = Break r'"
  shows "monitor_loop env fuel k r = Some r'"
  using assms
proof (induction fuel arbitrary: k r)
  case 0
  then show ?case by simp
next
  case (Suc fuel)
  have ns: "\<not> stop_monitoring_set (env k)" using Suc.prems(1,3) by simp
  show ?case
  proof (cases "k = i")
    case True
    then show ?thesis using ns Suc.prems(5) by simp
  next
    case False
    then have lt: "k < i" using Suc.prems(1) by simp
    have c: "oco_poll (env k) r = Continue (r\<lparr>polls := polls r + 1\<rparr>)"
      using Suc.prems(4)[of k r] lt by simp
    have "monitor_loop env fuel (Suc k) (r\<lparr>polls := polls r + 1\<rparr>) = Some r'"
    proof (rule Suc.IH)
      show "Suc k \<le> i" using lt by simp
      show "i - Suc k < fuel" using Suc.prems(2) lt by simp
      show "\<not> stop_monitoring_set (env j)" if "Suc k \<le> j" "j \<le> i" for j
        using Suc.prems(3)[of j] that by simp
      show "oco_poll (env j) r = Continue (r\<lparr>polls := polls r + 1\<rparr>)" if "Suc k \<le> j" "j < i" for j r
        using Suc.prems(4)[of j r] that by simp
      have n: "polls r + 1 + (i - Suc k) = polls r + (i - k)" using lt by arith
      have "r\<lparr>polls := polls r + 1, polls := polls (r\<lparr>polls := polls r + 1\<rparr>) + (i - Suc k)\<rparr>
              = r\<lparr>polls := polls r + 1 + (i - Suc k)\<rparr>" by simp
      also have "\<dots> = r\<lparr>polls := polls r + (i - k)\<rparr>" by (simp only: n)
      finally show "oco_poll (env i) (r\<lparr>polls := polls r + 1, polls := polls (r\<lparr>polls := polls r + 1\<rparr>) + (i - Suc k)\<rparr>) = Break r'"
        using Suc.prems(5) by (simp only:)
    qed
    then show ?thesis using ns c by simp
  qed
qed

text \<open>
  Claim C1, as amended. Let poll \<open>i\<close> be the first that ends the loop, by showing a leg
  FILLED: the flag is not set up to then, the earlier polls pass quietly (a failed query,
  or nothing to act on), and both queries of poll \<open>i\<close> return. Then, given fuel for more
  than \<open>i\<close> polls, the loop returns after exactly \<open>i + 1\<close> polls having sent exactly one
  cancel request. If the limit leg is FILLED, also when the stop leg is FILLED in the same
  poll, the request is for the stop leg and the status is LIMIT_FILLED (the code's name
  for the take-profit outcome); otherwise the request is for the limit leg and the status
  is STOP_FILLED. Whether the exchange accepts the cancel request does not matter.
\<close>

theorem oco_first_fill_wins:
  assumes "i < fuel"
    and "\<And>j. j \<le> i \<Longrightarrow> \<not> stop_monitoring_set (env j)"
    and "\<And>j r. j < i \<Longrightarrow> oco_poll (env j) r = Continue (r\<lparr>polls := polls r + 1\<rparr>)"
    and "limit_query (env i) = Inr limit_status" "stop_query (env i) = Inr stop_status"
    and "order_status limit_status = Some ''FILLED'' \<or> order_status stop_status = Some ''FILLED''"
  shows "monitor_loop env fuel 0 \<lparr>oco = oco_res, sent = [], polls = 0\<rparr> =
     Some (if order_status limit_status = Some ''FILLED''
           then \<lparr>oco = oco_res\<lparr>oco_status := ''LIMIT_FILLED''\<rparr>,
                 sent = [CancelOrder (oco_symbol oco_res) (orderId (stop_order oco_res))],
                 polls = i + 1\<rparr>
           else \<lparr>oco = oco_res\<lparr>oco_status := ''STOP_FILLED''\<rparr>,
                 sent = [CancelOrder (oco_symbol oco_res) (orderId (limit_order oco_res))],
                 polls = i + 1\<rparr>)"
proof (rule monitor_loop_first_break[where i = i])
  show "0 \<le> i" by simp
  show "i - 0 < fuel" using assms(1) by simp
  show "\<not> stop_monitoring_set (env j)" if "j \<le> i" for j using assms(2) that by simp
  show "oco_poll (env j) r = Continue (r\<lparr>polls := polls r + 1\<rparr>)" if "j < i" for j r
    using assms(3) that by simp
  show "oco_poll (env i) (\<lparr>oco = oco_res, sent = [], polls = 0\<rparr>\<lparr>polls := polls \<lparr>oco = oco_res, sent = [], polls = 0\<rparr> + (i - 0)\<rparr>) =
     Break (if order_status limit_status = Some ''FILLED''
           then \<lparr>oco = oco_res\<lparr>oco_status := ''LIMIT_FILLED''\<rparr>,
                 sent = [CancelOrder (oco_symbol oco_res) (orderId (stop_order oco_res))],
                 polls = i + 1\<rparr>
           else \<lparr>oco = oco_res\<lparr>oco_status := ''STOP_FILLED''\<rparr>,
                 sent = [CancelOrder (oco_symbol oco_res) (orderId (limit_order oco_res))],
                 polls = i + 1\<rparr>)"
    using assms(4-6)
    by (auto simp: oco_poll_def Let_def cancel_remaining_order_def cancel_quietly_def split: option.splits)
qed

theorem oco_first_fill_wins_witness:
  "monitor_loop stop_fills_third 5 0 \<lparr>oco = example_oco, sent = [], polls = 0\<rparr> =
     Some \<lparr>oco = example_oco\<lparr>oco_status := ''STOP_FILLED''\<rparr>,
           sent = [CancelOrder ''BTCUSDT'' (Some 31)], polls = 3\<rparr>"
  using oco_first_fill_wins [of 2 5 stop_fills_third "resting_order 31"
      "\<lparr>orderId = Some 32, order_status = Some ''FILLED'', avgPrice = 44000, executedQty = 1\<rparr>" example_oco]
  by (simp add: stop_fills_third_def oco_poll_def Let_def resting_order_def example_oco_def)

text \<open>
  Both legs are FILLED when the loop first looks: the strategy ends LIMIT_FILLED, the
  cancel request for the stop leg is refused and ignored, and both legs stay FILLED.
\<close>

theorem oco_both_filled_counterexample:
  "monitor_oco_order both_fill_at_once 1 \<lparr>monitoring_orders = [1 \<mapsto> example_oco], stop_monitoring = False\<rparr> example_oco =
     Some (\<lparr>oco = example_oco\<lparr>oco_status := ''LIMIT_FILLED''\<rparr>,
            sent = [CancelOrder ''BTCUSDT'' (Some 32)], polls = 1\<rparr>,
           \<lparr>monitoring_orders = Map.empty, stop_monitoring = False\<rparr>) \<and>
   map_sum id order_status (limit_query (both_fill_at_once 0)) = Inr (Some ''FILLED'') \<and>
   map_sum id order_status (stop_query (both_fill_at_once 0)) = Inr (Some ''FILLED'')"
  by (simp add: monitor_oco_order_def both_fill_at_once_def oco_poll_def Let_def
      cancel_remaining_order_def cancel_quietly_def example_oco_def resting_order_def)

end
